theory Spec2Isabelle
  imports Main "HOL-Library.Word" "HOL-Library.Multiset"
    "HOL-Library.Char_ord" "HOL-Library.List_Lexorder" "HOL-Library.Sublist"
begin

unbundle bit_operations_syntax

section \<open>Python exceptions\<close>

text \<open>
  Every exception the modelled code can raise, built-in or declared by the library, is a
  value of one datatype. A function that can raise returns \<open>exn + 'a\<close>; a method that
  mutates the client before raising returns the exception together with the state it
  leaves behind.
\<close>

datatype exn =
    TypeError | KeyError | IndexError | AttributeError
  | JSONDecodeError | QueueFull | QueueEmpty
  | NoTokenError | SocketTimeout | URLError
  | DeviceIdPrefixError
  | HubInitializationError | HubNotInitializedError | HubNotFoundError
  | HubSyncError | HubSyncDeviceError
  | DeviceAddError | DeviceUpdateError | DeviceNotFoundError | DeviceDeleteError

section \<open>The standard library: \<open>hashlib\<close> and \<open>base64\<close>\<close>

text \<open>
  A Python \<open>str\<close> is modelled by the \<open>string\<close> of its UTF-8 bytes, so \<open>str.encode()\<close>
  and \<open>bytes.decode()\<close> only change the element type. The digests are MD5 (RFC 1321) and
  SHA-1 (FIPS 180-4) on lists of bytes.
\<close>

type_synonym byte = "8 word"

definition encode :: "string \<Rightarrow> byte list" where
  "encode s = map (\<lambda>c. word_of_nat (of_char c)) s"

definition decode :: "byte list \<Rightarrow> string" where
  "decode bs = map (\<lambda>b. char_of (unat b)) bs"

fun chunks :: "nat \<Rightarrow> 'a list \<Rightarrow> 'a list list" where
  "chunks n xs = (if n = 0 \<or> xs = [] then [] else take n xs # chunks n (drop n xs))"

declare chunks.simps [simp del]

definition be_bytes32 :: "32 word \<Rightarrow> byte list" where
  "be_bytes32 w = [ucast (drop_bit 24 w), ucast (drop_bit 16 w), ucast (drop_bit 8 w), ucast w]"

definition le_bytes32 :: "32 word \<Rightarrow> byte list" where
  "le_bytes32 w = rev (be_bytes32 w)"

definition be_bytes64 :: "64 word \<Rightarrow> byte list" where
  "be_bytes64 w = map (\<lambda>i. ucast (drop_bit (8 * i) w)) [7, 6, 5, 4, 3, 2, 1, 0]"

definition le_bytes64 :: "64 word \<Rightarrow> byte list" where
  "le_bytes64 w = rev (be_bytes64 w)"

definition be_word32 :: "byte list \<Rightarrow> 32 word" where
  "be_word32 bs = foldl (\<lambda>w b. push_bit 8 w OR ucast b) 0 bs"

definition le_word32 :: "byte list \<Rightarrow> 32 word" where
  "le_word32 bs = be_word32 (rev bs)"

text \<open>
  Both digests pad the message with the byte \<open>0x80\<close>, then zero bytes up to 56 modulo 64,
  then the message length in bits as a 64-bit number.
\<close>

definition md_pad :: "(64 word \<Rightarrow> byte list) \<Rightarrow> byte list \<Rightarrow> byte list" where
  "md_pad len_bytes msg =
     msg @ [0x80] @ replicate ((119 - length msg mod 64) mod 64) 0
       @ len_bytes (word_of_nat (8 * length msg))"

subsection \<open>SHA-1\<close>

definition sha1_extend :: "32 word list \<Rightarrow> 32 word list" where
  "sha1_extend w16 =
     fold (\<lambda>i w. w @ [word_rotl 1 (w ! (i - 3) XOR w ! (i - 8) XOR w ! (i - 14) XOR w ! (i - 16))])
       [16..<80] w16"

definition sha1_f :: "nat \<Rightarrow> 32 word \<Rightarrow> 32 word \<Rightarrow> 32 word \<Rightarrow> 32 word" where
  "sha1_f i b c d =
     (if i < 20 then (b AND c) OR (NOT b AND d)
      else if i < 40 then b XOR c XOR d
      else if i < 60 then (b AND c) OR (b AND d) OR (c AND d)
      else b XOR c XOR d)"

definition sha1_k :: "nat \<Rightarrow> 32 word" where
  "sha1_k i =
     (if i < 20 then 0x5A827999 else if i < 40 then 0x6ED9EBA1
      else if i < 60 then 0x8F1BBCDC else 0xCA62C1D6)"

type_synonym sha1_state = "32 word \<times> 32 word \<times> 32 word \<times> 32 word \<times> 32 word"

definition sha1_round :: "32 word list \<Rightarrow> nat \<Rightarrow> sha1_state \<Rightarrow> sha1_state" where
  "sha1_round w i s =
     (case s of (a, b, c, d, e) \<Rightarrow>
        (word_rotl 5 a + sha1_f i b c d + e + sha1_k i + w ! i, a, word_rotl 30 b, c, d))"

definition sha1_block :: "byte list \<Rightarrow> sha1_state \<Rightarrow> sha1_state" where
  "sha1_block blk h =
     (let w = sha1_extend (map be_word32 (chunks 4 blk))
      in case (h, fold (sha1_round w) [0..<80] h) of
           ((h0, h1, h2, h3, h4), (a, b, c, d, e)) \<Rightarrow> (h0 + a, h1 + b, h2 + c, h3 + d, h4 + e))"

definition sha1 :: "byte list \<Rightarrow> byte list" where
  "sha1 msg =
     (case fold sha1_block (chunks 64 (md_pad be_bytes64 msg))
             (0x67452301, 0xEFCDAB89, 0x98BADCFE, 0x10325476, 0xC3D2E1F0) of
        (h0, h1, h2, h3, h4) \<Rightarrow> concat (map be_bytes32 [h0, h1, h2, h3, h4]))"

subsection \<open>MD5\<close>

definition md5_K :: "32 word list" where
  "md5_K =
    [0xd76aa478, 0xe8c7b756, 0x242070db, 0xc1bdceee, 0xf57c0faf, 0x4787c62a, 0xa8304613, 0xfd469501,
     0x698098d8, 0x8b44f7af, 0xffff5bb1, 0x895cd7be, 0x6b901122, 0xfd987193, 0xa679438e, 0x49b40821,
     0xf61e2562, 0xc040b340, 0x265e5a51, 0xe9b6c7aa, 0xd62f105d, 0x02441453, 0xd8a1e681, 0xe7d3fbc8,
     0x21e1cde6, 0xc33707d6, 0xf4d50d87, 0x455a14ed, 0xa9e3e905, 0xfcefa3f8, 0x676f02d9, 0x8d2a4c8a,
     0xfffa3942, 0x8771f681, 0x6d9d6122, 0xfde5380c, 0xa4beea44, 0x4bdecfa9, 0xf6bb4b60, 0xbebfbc70,
     0x289b7ec6, 0xeaa127fa, 0xd4ef3085, 0x04881d05, 0xd9d4d039, 0xe6db99e5, 0x1fa27cf8, 0xc4ac5665,
     0xf4292244, 0x432aff97, 0xab9423a7, 0xfc93a039, 0x655b59c3, 0x8f0ccc92, 0xffeff47d, 0x85845dd1,
     0x6fa87e4f, 0xfe2ce6e0, 0xa3014314, 0x4e0811a1, 0xf7537e82, 0xbd3af235, 0x2ad7d2bb, 0xeb86d391]"

definition md5_s :: "nat list" where
  "md5_s =
    [7, 12, 17, 22, 7, 12, 17, 22, 7, 12, 17, 22, 7, 12, 17, 22,
     5, 9, 14, 20, 5, 9, 14, 20, 5, 9, 14, 20, 5, 9, 14, 20,
     4, 11, 16, 23, 4, 11, 16, 23, 4, 11, 16, 23, 4, 11, 16, 23,
     6, 10, 15, 21, 6, 10, 15, 21, 6, 10, 15, 21, 6, 10, 15, 21]"

type_synonym md5_state = "32 word \<times> 32 word \<times> 32 word \<times> 32 word"

definition md5_round :: "32 word list \<Rightarrow> nat \<Rightarrow> md5_state \<Rightarrow> md5_state" where
  "md5_round m i s =
     (case s of (a, b, c, d) \<Rightarrow>
        let (f, g) =
              (if i < 16 then ((b AND c) OR (NOT b AND d), i)
               else if i < 32 then ((d AND b) OR (NOT d AND c), (5 * i + 1) mod 16)
               else if i < 48 then (b XOR c XOR d, (3 * i + 5) mod 16)
               else (c XOR (b OR NOT d), (7 * i) mod 16))
        in (d, b + word_rotl (md5_s ! i) (f + a + md5_K ! i + m ! g), b, c))"

definition md5_block :: "byte list \<Rightarrow> md5_state \<Rightarrow> md5_state" where
  "md5_block blk h =
     (let m = map le_word32 (chunks 4 blk)
      in case (h, fold (md5_round m) [0..<64] h) of
           ((a0, b0, c0, d0), (a, b, c, d)) \<Rightarrow> (a0 + a, b0 + b, c0 + c, d0 + d))"

definition md5 :: "byte list \<Rightarrow> byte list" where
  "md5 msg =
     (case fold md5_block (chunks 64 (md_pad le_bytes64 msg))
             (0x67452301, 0xefcdab89, 0x98badcfe, 0x10325476) of
        (a, b, c, d) \<Rightarrow> concat (map le_bytes32 [a, b, c, d]))"

subsection \<open>Hexadecimal digests and URL-safe Base64\<close>

definition hex_digit :: "nat \<Rightarrow> char" where
  "hex_digit i = ''0123456789abcdef'' ! (i mod 16)"

definition hexdigest :: "byte list \<Rightarrow> string" where
  "hexdigest bs = concat (map (\<lambda>b. [hex_digit (unat b div 16), hex_digit (unat b mod 16)]) bs)"

definition b64url_alphabet :: string where
  "b64url_alphabet = ''ABCDEFGHIJKLMNOPQRSTUVWXYZabcdefghijklmnopqrstuvwxyz0123456789-_''"

definition b64_char :: "nat \<Rightarrow> char" where
  "b64_char i = b64url_alphabet ! (i mod 64)"

fun b64url_text :: "byte list \<Rightarrow> string" where
  "b64url_text [] = []"
| "b64url_text [a] =
     (let n = unat a * 65536
      in [b64_char (n div 262144), b64_char (n div 4096), CHR ''='', CHR ''=''])"
| "b64url_text [a, b] =
     (let n = unat a * 65536 + unat b * 256
      in [b64_char (n div 262144), b64_char (n div 4096), b64_char (n div 64), CHR ''=''])"
| "b64url_text (a # b # c # rest) =
     (let n = unat a * 65536 + unat b * 256 + unat c
      in [b64_char (n div 262144), b64_char (n div 4096), b64_char (n div 64), b64_char n]
           @ b64url_text rest)"

definition urlsafe_b64encode :: "byte list \<Rightarrow> byte list" where
  "urlsafe_b64encode bs = encode (b64url_text bs)"

definition rstrip :: "char \<Rightarrow> string \<Rightarrow> string" where
  "rstrip c s = rev (dropWhile (\<lambda>x. x = c) (rev s))"

section \<open>Python values\<close>

text \<open>
  The values that \<open>json.loads\<close> produces, which are also the values the configuration and
  the private attributes of a device can hold: \<open>None\<close>, booleans, integers, strings, lists
  and dictionaries (a list of items with distinct keys, in insertion order). JSON numbers
  are integers here.
\<close>

datatype json =
    JNull | JBool bool | JNum int | JStr string | JArr "json list" | JObj "(string \<times> json) list"

text \<open>Truth value testing, as in \<open>if x:\<close> and \<open>not x\<close>.\<close>

fun truthy :: "json \<Rightarrow> bool" where
  "truthy JNull = False"
| "truthy (JBool b) = b"
| "truthy (JNum n) = (n \<noteq> 0)"
| "truthy (JStr s) = (s \<noteq> [])"
| "truthy (JArr xs) = (xs \<noteq> [])"
| "truthy (JObj kvs) = (kvs \<noteq> [])"

text \<open>Python's \<open>==\<close>: a boolean equals the integer 0 or 1, dictionaries ignore order.\<close>

fun py_eq :: "json \<Rightarrow> json \<Rightarrow> bool" where
  "py_eq JNull y = (y = JNull)"
| "py_eq (JBool b) y =
     (case y of JBool b' \<Rightarrow> b = b' | JNum n \<Rightarrow> n = (if b then 1 else 0) | _ \<Rightarrow> False)"
| "py_eq (JNum n) y =
     (case y of JNum n' \<Rightarrow> n = n' | JBool b \<Rightarrow> n = (if b then 1 else 0) | _ \<Rightarrow> False)"
| "py_eq (JStr s) y = (y = JStr s)"
| "py_eq (JArr xs) y = (case y of JArr ys \<Rightarrow> list_all2 py_eq xs ys | _ \<Rightarrow> False)"
| "py_eq (JObj kvs) y =
     (case y of
        JObj kvs' \<Rightarrow>
          length kvs = length kvs' \<and>
          list_all (\<lambda>(k, v). case map_of kvs' k of None \<Rightarrow> False | Some v' \<Rightarrow> py_eq v v') kvs
      | _ \<Rightarrow> False)"

text \<open>\<open>x[key]\<close> with a string key: only a dictionary can be subscripted by a string.\<close>

definition py_getitem :: "json \<Rightarrow> string \<Rightarrow> exn + json" where
  "py_getitem x key =
     (case x of
        JObj kvs \<Rightarrow> (case map_of kvs key of None \<Rightarrow> Inl KeyError | Some v \<Rightarrow> Inr v)
      | _ \<Rightarrow> Inl TypeError)"

text \<open>\<open>x.setdefault(key, default)\<close>: only a dictionary has the method.\<close>

definition py_setdefault :: "json \<Rightarrow> string \<Rightarrow> json \<Rightarrow> exn + json" where
  "py_setdefault x key dflt =
     (case x of
        JObj kvs \<Rightarrow> (case map_of kvs key of None \<Rightarrow> Inr dflt | Some v \<Rightarrow> Inr v)
      | _ \<Rightarrow> Inl AttributeError)"

text \<open>\<open>xs[i]\<close> on a list with a non-negative index.\<close>

definition py_index :: "'a list \<Rightarrow> nat \<Rightarrow> exn + 'a" where
  "py_index xs i = (if i < length xs then Inr (xs ! i) else Inl IndexError)"

text \<open>\<open>s.split(sep)\<close> for a separator of one character.\<close>

fun split_char :: "char \<Rightarrow> string \<Rightarrow> string list" where
  "split_char sep [] = [[]]"
| "split_char sep (c # cs) =
     (if c = sep then [] # split_char sep cs
      else (case split_char sep cs of [] \<Rightarrow> [[c]] | x # xs \<Rightarrow> (c # x) # xs))"

text \<open>
  \<open>s.replace(old, new)\<close>: every occurrence of \<open>old\<close>, found from the left without
  overlap, is replaced; an empty \<open>old\<close> matches before every character and at the end.
\<close>

function str_replace :: "string \<Rightarrow> string \<Rightarrow> string \<Rightarrow> string" where
  "str_replace old new s =
     (if old = [] then new @ concat (map (\<lambda>c. c # new) s)
      else if s = [] then []
      else if take (length old) s = old then new @ str_replace old new (drop (length old) s)
      else hd s # str_replace old new (tl s))"
  by pat_completeness auto
termination
  by (relation "measure (\<lambda>(old, new, s). length s)") auto

text \<open>\<open>"{}".format(x)\<close> for a value that is a string or \<open>None\<close>.\<close>

definition fmt :: "string option \<Rightarrow> string" where
  "fmt x = (case x of None \<Rightarrow> ''None'' | Some s \<Rightarrow> s)"

section \<open>The standard library: \<open>queue.Queue\<close>\<close>

text \<open>
  A queue holds its capacity and its items, oldest first. A capacity of zero or less
  means that the queue has no bound.
\<close>

record 'a Queue =
  maxsize :: int
  queue_items :: "'a list"

definition Queue_init :: "int \<Rightarrow> 'a Queue" where
  "Queue_init n = \<lparr>maxsize = n, queue_items = []\<rparr>"

definition put_nowait :: "'a Queue \<Rightarrow> 'a \<Rightarrow> exn + 'a Queue" where
  "put_nowait q x =
     (if 0 < maxsize q \<and> maxsize q \<le> int (length (queue_items q)) then Inl QueueFull
      else Inr (q\<lparr>queue_items := queue_items q @ [x]\<rparr>))"

definition get_nowait :: "'a Queue \<Rightarrow> exn + ('a \<times> 'a Queue)" where
  "get_nowait q =
     (case queue_items q of
        [] \<Rightarrow> Inl QueueEmpty
      | x # xs \<Rightarrow> Inr (x, q\<lparr>queue_items := xs\<rparr>))"

section \<open>Module \<open>types\<close>: the device descriptor\<close>

text \<open>
  The private attributes of a \<open>Device\<close>. \<open>dev_id\<close> and \<open>dev_name\<close> only ever hold strings
  (their setters validate the type); the attribute behind \<open>remote_id\<close> is also written
  from outside the class and can hold any value. \<open>device_type_id\<close> is supplied by the
  integrator's subclass.
\<close>

record Device =
  dev_id :: string
  dev_remote_id :: json
  dev_name :: string
  device_type_id :: string

text \<open>\<open>Device.__new__\<close>: all private attributes start as the empty string.\<close>

definition Device_new :: "string \<Rightarrow> Device" where
  "Device_new type_id =
     \<lparr>dev_id = [], dev_remote_id = JStr [], dev_name = [], device_type_id = type_id\<rparr>"

text \<open>The property \<open>remote_id\<close> and its setter.\<close>

definition remote_id :: "Device \<Rightarrow> json" where
  "remote_id d = dev_remote_id d"

definition remote_id_setter :: "Device \<Rightarrow> json \<Rightarrow> exn + Device" where
  "remote_id_setter d arg =
     (case arg of
        JStr s \<Rightarrow>
          if truthy (dev_remote_id d) then Inl AttributeError
          else Inr (d\<lparr>dev_remote_id := arg\<rparr>)
      | _ \<Rightarrow> Inl TypeError)"

text \<open>The setter of \<open>id\<close>, of the same shape.\<close>

definition id_setter :: "Device \<Rightarrow> json \<Rightarrow> exn + Device" where
  "id_setter d arg =
     (case arg of
        JStr s \<Rightarrow> if dev_id d \<noteq> [] then Inl AttributeError else Inr (d\<lparr>dev_id := s\<rparr>)
      | _ \<Rightarrow> Inl TypeError)"

text \<open>
  \<open>setattr(device, '_Device__remote_id', v)\<close>: a write to the private attribute that
  does not go through the property.
\<close>

definition setattr_remote_id :: "Device \<Rightarrow> json \<Rightarrow> Device" where
  "setattr_remote_id d v = d\<lparr>dev_remote_id := v\<rparr>"

section \<open>The client's surroundings\<close>

text \<open>
  The configuration object \<open>cc_conf\<close>, with the options the modelled methods read or
  write. \<open>api_scheme\<close> stands for \<open>http.tls_map[cc_conf.api.tls]\<close>. An option that may be
  unset is \<open>None\<close>; the hub's id and name also receive values taken from a response.
\<close>

record cc_conf =
  credentials_user :: "string option"
  device_id_prefix :: "string option"
  hub_id :: json
  hub_name :: json
  api_scheme :: string
  api_host :: string
  api_hub_endpt :: string
  api_device_endpt :: string
  api_request_timeout :: int

datatype http_method = GET | POST | PUT | HEAD | DELETE

record request =
  url :: string
  req_method :: http_method
  body :: "json option"
  content_type_json :: bool
  headers :: "(string \<times> string) list"
  timeout :: int

text \<open>\<open>req.send()\<close> returns a response (status and body) or raises.\<close>

datatype send_result = Response int string | RaiseSocketTimeout | RaiseURLError

text \<open>
  Everything outside the client: the token provider (\<open>None\<close> when it raises
  \<open>NoTokenError\<close>), the platform answering the \<open>n\<close>-th request of the run, \<open>json.loads\<close>
  (\<open>None\<close> when it raises \<open>JSONDecodeError\<close>), \<open>http.urlEncode\<close>, the clock, the
  operating system's user name and the name of the running thread.
\<close>

record world =
  getAccessToken :: "string option"
  http_send :: "nat \<Rightarrow> request \<Rightarrow> send_result"
  json_loads :: "string \<Rightarrow> json option"
  urlEncode :: "json \<Rightarrow> string"
  time_time :: string
  getuser :: string
  utcnow :: string
  current_thread :: string

text \<open>
  Modelled from the spec: the classes \<open>CommandEnvelope\<close> and \<open>Message\<close> of the package
  \<open>message\<close> are not among the sources. A command envelope carries the device's local id,
  the service uri, a message of data and metadata, a correlation id, a completion
  strategy and a timestamp, and is immutable after construction.
\<close>

record Message =
  msg_data :: json
  msg_metadata :: json

record CommandEnvelope =
  env_device_id :: string
  env_service_uri :: string
  env_message :: Message
  env_correlation_id :: json
  env_completion_strategy :: json
  env_timestamp :: json

section \<open>The client\<close>

text \<open>
  The attributes of \<open>Client\<close> that the modelled methods use, the configuration it works
  on, and \<open>sent\<close>, the requests issued so far. A lock is \<open>True\<close> while it is held, an
  event is \<open>True\<close> while it is set.
\<close>

record client =
  conf :: cc_conf
  connected_flag :: bool
  reconnect_flag :: bool
  cmd_queue :: "CommandEnvelope Queue"
  workers :: "string list"
  hub_sync_event :: bool
  hub_sync_lock :: bool
  hub_init :: bool
  sent :: "request list"

text \<open>
  A method returns, raises, or waits for ever; the run is sequential, so a lock that is
  held or an event that is cleared when the method reaches it stays so.
\<close>

datatype outcome = Return | Raise exn | Blocks

definition set_hub_id :: "json \<Rightarrow> client \<Rightarrow> client" where
  "set_hub_id v c = c\<lparr>conf := (conf c)\<lparr>hub_id := v\<rparr>\<rparr>"

definition set_hub_name :: "json \<Rightarrow> client \<Rightarrow> client" where
  "set_hub_name v c = c\<lparr>conf := (conf c)\<lparr>hub_name := v\<rparr>\<rparr>"

definition send :: "world \<Rightarrow> client \<Rightarrow> request \<Rightarrow> send_result \<times> client" where
  "send W c req = (http_send W (length (sent c)) req, c\<lparr>sent := sent c @ [req]\<rparr>)"

definition bearer :: "string \<Rightarrow> (string \<times> string) list" where
  "bearer access_token = [(''Authorization'', ''Bearer '' @ access_token)]"

subsection \<open>Device ids\<close>

definition genDeviceIdPrefix :: "world \<Rightarrow> cc_conf \<Rightarrow> exn + cc_conf" where
  "genDeviceIdPrefix W cf =
     (if device_id_prefix cf = None \<or> device_id_prefix cf = Some [] then
        (case credentials_user cf of
           None \<Rightarrow> Inl DeviceIdPrefixError
         | Some user \<Rightarrow>
             let usr_time_str = hexdigest (md5 (encode user)) @ time_time W
             in Inr (cf\<lparr>device_id_prefix :=
                       Some (rstrip CHR ''=''
                         (decode (urlsafe_b64encode (md5 (encode usr_time_str)))))\<rparr>))
      else Inr cf)"

definition prefixDeviceID :: "cc_conf \<Rightarrow> string \<Rightarrow> string" where
  "prefixDeviceID cf device_id = fmt (device_id_prefix cf) @ ''-'' @ device_id"

definition parseDeviceID :: "cc_conf \<Rightarrow> string \<Rightarrow> string" where
  "parseDeviceID cf device_id = str_replace (fmt (device_id_prefix cf) @ ''-'') [] device_id"

definition hashDevices :: "Device list \<Rightarrow> string" where
  "hashDevices devices =
     (let hashes = map (\<lambda>device. hexdigest (sha1 (encode (dev_id device @ dev_name device)))) devices
      in hexdigest (sha1 (encode (concat (sort hashes)))))"

subsection \<open>Construction\<close>

definition Client_init :: "world \<Rightarrow> cc_conf \<Rightarrow> exn + client" where
  "Client_init W cf =
     (case genDeviceIdPrefix W cf of
        Inl e \<Rightarrow> Inl e
      | Inr cf' \<Rightarrow>
          Inr \<lparr>conf = cf', connected_flag = False, reconnect_flag = False,
               cmd_queue = Queue_init 0, workers = [],
               hub_sync_event = True, hub_sync_lock = False, hub_init = False, sent = []\<rparr>)"

subsection \<open>Hub initialisation and synchronisation\<close>

definition hub_collection_url :: "cc_conf \<Rightarrow> string" where
  "hub_collection_url cf = api_scheme cf @ ''://'' @ api_host cf @ ''/'' @ api_hub_endpt cf"

definition hub_url :: "world \<Rightarrow> cc_conf \<Rightarrow> string" where
  "hub_url W cf =
     api_scheme cf @ ''://'' @ api_host cf @ ''/'' @ api_hub_endpt cf @ ''/'' @ urlEncode W (hub_id cf)"

text \<open>The four requests about the hub, as the methods below build them.\<close>

definition hub_post_request :: "cc_conf \<Rightarrow> string \<Rightarrow> json \<Rightarrow> request" where
  "hub_post_request cf access_token name =
     \<lparr>url = hub_collection_url cf, req_method = POST,
      body = Some (JObj [(''id'', JNull), (''name'', name), (''hash'', JNull),
                         (''device_local_ids'', JArr [])]),
      content_type_json = True, headers = bearer access_token,
      timeout = api_request_timeout cf\<rparr>"

definition hub_head_request :: "world \<Rightarrow> cc_conf \<Rightarrow> string \<Rightarrow> request" where
  "hub_head_request W cf access_token =
     \<lparr>url = hub_url W cf, req_method = HEAD, body = None, content_type_json = False,
      headers = bearer access_token, timeout = api_request_timeout cf\<rparr>"

definition hub_get_request :: "world \<Rightarrow> cc_conf \<Rightarrow> string \<Rightarrow> request" where
  "hub_get_request W cf access_token =
     \<lparr>url = hub_url W cf, req_method = GET, body = None, content_type_json = True,
      headers = bearer access_token, timeout = api_request_timeout cf\<rparr>"

definition hub_put_request ::
  "world \<Rightarrow> cc_conf \<Rightarrow> string \<Rightarrow> string list \<Rightarrow> string \<Rightarrow> request" where
  "hub_put_request W cf access_token device_ids devices_hash =
     \<lparr>url = hub_url W cf, req_method = PUT,
      body = Some (JObj [(''id'', hub_id cf), (''name'', hub_name cf),
                         (''hash'', JStr devices_hash),
                         (''device_local_ids'', JArr (map JStr device_ids))]),
      content_type_json = True, headers = bearer access_token,
      timeout = api_request_timeout cf\<rparr>"

definition initHub :: "world \<Rightarrow> client \<Rightarrow> outcome \<times> client" where
  "initHub W c =
     (case getAccessToken W of
        None \<Rightarrow> (Raise HubInitializationError, c)
      | Some access_token \<Rightarrow>
          if \<not> truthy (hub_id (conf c)) then
            (let name = (if \<not> truthy (hub_name (conf c)) then JStr (getuser W @ ''-'' @ utcnow W)
                         else hub_name (conf c));
                 req = hub_post_request (conf c) access_token name
             in case send W c req of
                  (Response status resp_body, c1) \<Rightarrow>
                    if status \<noteq> 200 then (Raise HubInitializationError, c1)
                    else
                      (case json_loads W resp_body of
                         None \<Rightarrow> (Raise HubInitializationError, c1)
                       | Some hub \<Rightarrow>
                           (case py_getitem hub ''id'' of
                              Inl e \<Rightarrow> (Raise (if e = KeyError then HubInitializationError else e), c1)
                            | Inr v \<Rightarrow>
                                let c2 = set_hub_id v c1;
                                    c3 = (if \<not> truthy (hub_name (conf c2)) then set_hub_name name c2
                                          else c2)
                                in (Return, c3\<lparr>hub_init := True\<rparr>)))
                | (_, c1) \<Rightarrow> (Raise HubInitializationError, c1))
          else
            (let req = hub_head_request W (conf c) access_token
             in case send W c req of
                  (Response status resp_body, c1) \<Rightarrow>
                    if status = 200 then (Return, c1\<lparr>hub_init := True\<rparr>)
                    else if status = 404 then (Raise HubNotFoundError, set_hub_id JNull c1)
                    else (Raise HubInitializationError, c1)
                | (_, c1) \<Rightarrow> (Raise HubInitializationError, c1)))"

text \<open>The update of \<open>__syncHub\<close>: the \<open>PUT\<close> of the full descriptor and its status codes.\<close>

definition syncHub_put ::
  "world \<Rightarrow> client \<Rightarrow> string \<Rightarrow> string list \<Rightarrow> string \<Rightarrow> outcome \<times> client" where
  "syncHub_put W c access_token device_ids devices_hash =
     (let req = hub_put_request W (conf c) access_token device_ids devices_hash
      in case send W c req of
           (Response status resp_body, c1) \<Rightarrow>
             if status = 400 then (Raise HubSyncDeviceError, c1)
             else if status = 404 then (Raise HubNotFoundError, set_hub_id JNull c1)
             else if status \<noteq> 200 then (Raise HubSyncError, c1)
             else (Return, c1)
         | (_, c1) \<Rightarrow> (Raise HubSyncError, c1))"

text \<open>
  The inner \<open>try\<close> block of \<open>__syncHub\<close> with its \<open>except\<close> clauses: the tasks recorded
  in \<open>workers\<close> are joined and forgotten, the hub is fetched and compared.
\<close>

definition syncHub_try :: "world \<Rightarrow> client \<Rightarrow> Device list \<Rightarrow> outcome \<times> client" where
  "syncHub_try W c devices =
     (let c0 = c\<lparr>hub_sync_event := False, workers := []\<rparr>;
          device_ids = map (\<lambda>device. prefixDeviceID (conf c0) (dev_id device)) devices;
          devices_hash = hashDevices devices
      in case getAccessToken W of
           None \<Rightarrow> (Raise HubSyncError, c0)
         | Some access_token \<Rightarrow>
             (let req = hub_get_request W (conf c0) access_token
              in case send W c0 req of
                   (Response status resp_body, c1) \<Rightarrow>
                     if status = 200 then
                       (case json_loads W resp_body of
                          None \<Rightarrow> (Raise HubSyncError, c1)
                        | Some hub \<Rightarrow>
                            (case py_getitem hub ''name'' of
                               Inl e \<Rightarrow> (Raise (if e = KeyError then HubSyncError else e), c1)
                             | Inr remote_name \<Rightarrow>
                                 let c2 = (if \<not> py_eq remote_name (hub_name (conf c1))
                                           then set_hub_name remote_name c1 else c1)
                                 in (case py_getitem hub ''hash'' of
                                       Inl e \<Rightarrow> (Raise (if e = KeyError then HubSyncError else e), c2)
                                     | Inr remote_hash \<Rightarrow>
                                         if \<not> py_eq remote_hash (JStr devices_hash)
                                         then syncHub_put W c2 access_token device_ids devices_hash
                                         else (Return, c2))))
                     else if status = 404 then (Raise HubNotFoundError, set_hub_id JNull c1)
                     else (Raise HubSyncError, c1)
                 | (_, c1) \<Rightarrow> (Raise HubSyncError, c1)))"

definition syncHub :: "world \<Rightarrow> client \<Rightarrow> Device list \<Rightarrow> outcome \<times> client" where
  "syncHub W c devices =
     (if hub_sync_lock c then (Blocks, c)
      else
        let c0 = c\<lparr>hub_sync_lock := True\<rparr>
        in if \<not> hub_init c0 then (Raise HubNotInitializedError, c0\<lparr>hub_sync_lock := False\<rparr>)
           else
             (case syncHub_try W c0 devices of
                (r, c1) \<Rightarrow> (r, c1\<lparr>hub_sync_event := True, hub_sync_lock := False\<rparr>)))"

subsection \<open>Device registration\<close>

definition device_url :: "world \<Rightarrow> cc_conf \<Rightarrow> string \<Rightarrow> string" where
  "device_url W cf device_id =
     api_scheme cf @ ''://'' @ api_host cf @ ''/'' @ api_device_endpt cf @ ''/''
       @ fmt (device_id_prefix cf) @ ''-'' @ urlEncode W (JStr device_id)"

definition device_collection_url :: "cc_conf \<Rightarrow> string" where
  "device_collection_url cf = api_scheme cf @ ''://'' @ api_host cf @ ''/'' @ api_device_endpt cf"

text \<open>The four requests about a device.\<close>

definition device_get_request :: "world \<Rightarrow> cc_conf \<Rightarrow> string \<Rightarrow> Device \<Rightarrow> request" where
  "device_get_request W cf access_token device =
     \<lparr>url = device_url W cf (dev_id device), req_method = GET, body = None,
      content_type_json = False, headers = bearer access_token,
      timeout = api_request_timeout cf\<rparr>"

definition device_post_request :: "cc_conf \<Rightarrow> string \<Rightarrow> Device \<Rightarrow> request" where
  "device_post_request cf access_token device =
     \<lparr>url = device_collection_url cf, req_method = POST,
      body = Some (JObj [(''name'', JStr (dev_name device)),
                         (''device_type_id'', JStr (device_type_id device)),
                         (''local_id'', JStr (fmt (device_id_prefix cf) @ ''-'' @ dev_id device))]),
      content_type_json = True, headers = bearer access_token,
      timeout = api_request_timeout cf\<rparr>"

definition device_put_request :: "world \<Rightarrow> cc_conf \<Rightarrow> string \<Rightarrow> Device \<Rightarrow> request" where
  "device_put_request W cf access_token device =
     \<lparr>url = device_url W cf (dev_id device), req_method = PUT,
      body = Some (JObj [(''id'', remote_id device), (''name'', JStr (dev_name device)),
                         (''device_type_id'', JStr (device_type_id device)),
                         (''local_id'', JStr (fmt (device_id_prefix cf) @ ''-'' @ dev_id device))]),
      content_type_json = True, headers = bearer access_token,
      timeout = api_request_timeout cf\<rparr>"

definition device_delete_request :: "world \<Rightarrow> cc_conf \<Rightarrow> string \<Rightarrow> string \<Rightarrow> request" where
  "device_delete_request W cf access_token device_id =
     \<lparr>url = device_url W cf device_id, req_method = DELETE, body = None,
      content_type_json = False, headers = bearer access_token,
      timeout = api_request_timeout cf\<rparr>"

definition updateDevice :: "world \<Rightarrow> client \<Rightarrow> Device \<Rightarrow> outcome \<times> client" where
  "updateDevice W c device =
     (case getAccessToken W of
        None \<Rightarrow> (Raise DeviceUpdateError, c)
      | Some access_token \<Rightarrow>
          (let req = device_put_request W (conf c) access_token device
           in case send W c req of
                (Response status resp_body, c1) \<Rightarrow>
                  if status = 200 then (Return, c1)
                  else if status = 404 then (Raise DeviceNotFoundError, c1)
                  else (Raise DeviceUpdateError, c1)
              | (_, c1) \<Rightarrow> (Raise DeviceUpdateError, c1)))"

text \<open>
  The part of \<open>__addDevice\<close> that reads the platform's answer: \<open>json.loads\<close>, the key
  \<open>id\<close>, and the write to the private attribute (on the path that creates the device,
  after the sleep for eventual consistency, which changes nothing here). \<open>JSONDecodeError\<close> and \<open>KeyError\<close> reach
  the \<open>except\<close> clauses that only log a warning, so the result is \<open>None\<close> and the method
  goes on to return; any other exception leaves the method.
\<close>

definition record_remote_id :: "world \<Rightarrow> string \<Rightarrow> Device \<Rightarrow> exn + Device option" where
  "record_remote_id W resp_body device =
     (case json_loads W resp_body of
        None \<Rightarrow> Inr None
      | Some device_atr \<Rightarrow>
          (case py_getitem device_atr ''id'' of
             Inl e \<Rightarrow> (if e = KeyError then Inr None else Inl e)
           | Inr v \<Rightarrow> Inr (Some (setattr_remote_id device v))))"

definition addDevice :: "world \<Rightarrow> client \<Rightarrow> Device \<Rightarrow> bool \<Rightarrow> outcome \<times> client \<times> Device" where
  "addDevice W c device worker =
     (if hub_init c \<and> \<not> hub_sync_event c then (Blocks, c, device)
      else
        let c0 = (if worker then c\<lparr>workers := workers c @ [current_thread W]\<rparr> else c)
        in case getAccessToken W of
             None \<Rightarrow> (Raise DeviceAddError, c0, device)
           | Some access_token \<Rightarrow>
               (let probe = device_get_request W (conf c0) access_token device
                in case send W c0 probe of
                     (Response status resp_body, c1) \<Rightarrow>
                       if status = 404 then
                         (let req = device_post_request (conf c1) access_token device
                          in case send W c1 req of
                               (Response status2 resp_body2, c2) \<Rightarrow>
                                 if status2 \<noteq> 200 then (Raise DeviceAddError, c2, device)
                                 else
                                   (case record_remote_id W resp_body2 device of
                                      Inl e \<Rightarrow> (Raise e, c2, device)
                                    | Inr None \<Rightarrow> (Return, c2, device)
                                    | Inr (Some device') \<Rightarrow> (Return, c2, device'))
                             | (_, c2) \<Rightarrow> (Raise DeviceAddError, c2, device))
                       else if status = 200 then
                         (case record_remote_id W resp_body device of
                            Inl e \<Rightarrow> (Raise e, c1, device)
                          | Inr None \<Rightarrow> (Return, c1, device)
                          | Inr (Some device') \<Rightarrow>
                              (case updateDevice W c1 device' of (r, c2) \<Rightarrow> (r, c2, device')))
                       else (Raise DeviceAddError, c1, device)
                   | (_, c1) \<Rightarrow> (Raise DeviceAddError, c1, device)))"

definition deleteDevice :: "world \<Rightarrow> client \<Rightarrow> string \<Rightarrow> bool \<Rightarrow> outcome \<times> client" where
  "deleteDevice W c device_id worker =
     (if hub_init c \<and> \<not> hub_sync_event c then (Blocks, c)
      else
        let c0 = (if worker then c\<lparr>workers := workers c @ [current_thread W]\<rparr> else c)
        in case getAccessToken W of
             None \<Rightarrow> (Raise DeviceDeleteError, c0)
           | Some access_token \<Rightarrow>
               (let req = device_delete_request W (conf c0) access_token device_id
                in case send W c0 req of
                     (Response status resp_body, c1) \<Rightarrow>
                       if status = 200 \<or> status = 404 then (Return, c1)
                       else (Raise DeviceDeleteError, c1)
                   | (_, c1) \<Rightarrow> (Raise DeviceDeleteError, c1)))"

subsection \<open>Command ingress\<close>

text \<open>
  The construction of the envelope in \<open>__handleCommand\<close>, argument by argument in the
  order Python evaluates them.
\<close>

definition build_envelope :: "cc_conf \<Rightarrow> string list \<Rightarrow> json \<Rightarrow> exn + CommandEnvelope" where
  "build_envelope cf uri envelope =
     (case py_index uri 1 of Inl e \<Rightarrow> Inl e | Inr u1 \<Rightarrow>
      case py_index uri 2 of Inl e \<Rightarrow> Inl e | Inr u2 \<Rightarrow>
      case py_getitem envelope ''payload'' of Inl e \<Rightarrow> Inl e | Inr p1 \<Rightarrow>
      case py_setdefault p1 ''data'' (JStr []) of Inl e \<Rightarrow> Inl e | Inr d \<Rightarrow>
      case py_getitem envelope ''payload'' of Inl e \<Rightarrow> Inl e | Inr p2 \<Rightarrow>
      case py_setdefault p2 ''metadata'' (JStr []) of Inl e \<Rightarrow> Inl e | Inr m \<Rightarrow>
      case py_getitem envelope ''correlation_id'' of Inl e \<Rightarrow> Inl e | Inr corr \<Rightarrow>
      case py_getitem envelope ''completion_strategy'' of Inl e \<Rightarrow> Inl e | Inr strategy \<Rightarrow>
      case py_getitem envelope ''timestamp'' of Inl e \<Rightarrow> Inl e | Inr ts \<Rightarrow>
        Inr \<lparr>env_device_id = parseDeviceID cf u1, env_service_uri = u2,
             env_message = \<lparr>msg_data = d, msg_metadata = m\<rparr>,
             env_correlation_id = corr, env_completion_strategy = strategy,
             env_timestamp = ts\<rparr>)"

definition handleCommand :: "world \<Rightarrow> client \<Rightarrow> string \<Rightarrow> string \<Rightarrow> outcome \<times> client" where
  "handleCommand W c envelope uri =
     (let uri_parts = split_char CHR ''/'' uri
      in case json_loads W envelope of
           None \<Rightarrow> (Return, c)
         | Some env \<Rightarrow>
             (case build_envelope (conf c) uri_parts env of
                Inl e \<Rightarrow> (if e = KeyError \<or> e = AttributeError then (Return, c) else (Raise e, c))
              | Inr cmd \<Rightarrow>
                  (case put_nowait (cmd_queue c) cmd of
                     Inl e \<Rightarrow> (Return, c)
                   | Inr q \<Rightarrow> (Return, c\<lparr>cmd_queue := q\<rparr>))))"

text \<open>The commands the transport delivers one after the other, none of them consumed.\<close>

fun handleCommands :: "world \<Rightarrow> client \<Rightarrow> (string \<times> string) list \<Rightarrow> outcome \<times> client" where
  "handleCommands W c [] = (Return, c)"
| "handleCommands W c ((envelope, uri) # rest) =
     (case handleCommand W c envelope uri of
        (Return, c') \<Rightarrow> handleCommands W c' rest
      | (r, c') \<Rightarrow> (r, c'))"

section \<open>Specifications and example inputs\<close>

text \<open>Two devices of an integrator.\<close>

definition device_A :: Device where
  "device_A = \<lparr>dev_id = ''d1'', dev_remote_id = JStr [], dev_name = ''A'', device_type_id = ''t''\<rparr>"

definition device_B :: Device where
  "device_B = \<lparr>dev_id = ''d2'', dev_remote_id = JStr [], dev_name = ''B'', device_type_id = ''t''\<rparr>"

text \<open>
  The prefix in the specification's words, with SHA-1 as the outer digest, and the same
  with MD5 as the outer digest.
\<close>

definition device_id_prefix_spec :: "string \<Rightarrow> string \<Rightarrow> string" where
  "device_id_prefix_spec user unix_time =
     rstrip CHR ''='' (decode (urlsafe_b64encode
       (sha1 (encode (hexdigest (md5 (encode user)) @ unix_time)))))"

definition device_id_prefix_md5 :: "string \<Rightarrow> string \<Rightarrow> string" where
  "device_id_prefix_md5 user unix_time =
     rstrip CHR ''='' (decode (urlsafe_b64encode
       (md5 (encode (hexdigest (md5 (encode user)) @ unix_time)))))"

text \<open>
  A response body from which \<open>__addDevice\<close> cannot take the remote id: it does not
  decode, or it decodes to a dictionary without the key \<open>id\<close>.
\<close>

definition malformed :: "world \<Rightarrow> string \<Rightarrow> bool" where
  "malformed W b =
     (case json_loads W b of
        None \<Rightarrow> True
      | Some (JObj kvs) \<Rightarrow> map_of kvs ''id'' = None
      | Some _ \<Rightarrow> False)"

text \<open>
  The envelope that a delivery (payload and topic) carries when it is well-formed:
  the payload decodes and every part of the envelope can be read.
\<close>

definition command_of :: "world \<Rightarrow> cc_conf \<Rightarrow> string \<times> string \<Rightarrow> CommandEnvelope option" where
  "command_of W cf delivery =
     (case delivery of (envelope, uri) \<Rightarrow>
        (case json_loads W envelope of
           None \<Rightarrow> None
         | Some env \<Rightarrow>
             (case build_envelope cf (split_char CHR ''/'' uri) env of
                Inl e \<Rightarrow> None
              | Inr cmd \<Rightarrow> Some cmd)))"

text \<open>
  A configuration with the prefix \<open>P\<close> and a hub id, surroundings with a token and a
  given platform and decoder, and the client as \<open>__init__\<close> leaves it, before or after
  a successful \<open>initHub\<close>.
\<close>

definition conf_example :: cc_conf where
  "conf_example =
     \<lparr>credentials_user = Some ''alice'', device_id_prefix = Some ''P'',
      hub_id = JStr ''h1'', hub_name = JStr ''hub'',
      api_scheme = ''https'', api_host = ''api.example.org'',
      api_hub_endpt = ''hubs'', api_device_endpt = ''devices'', api_request_timeout = 30\<rparr>"

definition world_example ::
  "(nat \<Rightarrow> request \<Rightarrow> send_result) \<Rightarrow> (string \<Rightarrow> json option) \<Rightarrow> world" where
  "world_example platform loads =
     \<lparr>getAccessToken = Some ''token'', http_send = platform, json_loads = loads,
      urlEncode = (\<lambda>v. case v of JStr s \<Rightarrow> s | _ \<Rightarrow> ''None''),
      time_time = ''1700000000.5'', getuser = ''alice'', utcnow = ''2024-01-01T00:00:00'',
      current_thread = ''add-device-d1''\<rparr>"

definition client_example :: "bool \<Rightarrow> client" where
  "client_example initialized =
     \<lparr>conf = conf_example, connected_flag = False, reconnect_flag = False,
      cmd_queue = Queue_init 0, workers = [],
      hub_sync_event = True, hub_sync_lock = False, hub_init = initialized, sent = []\<rparr>"

text \<open>The command of the specification's ingress scenario, decoded.\<close>

definition command_json :: json where
  "command_json =
     JObj [(''correlation_id'', JStr ''c''), (''completion_strategy'', JStr ''optimistic''),
           (''timestamp'', JNum 1700000000),
           (''payload'', JObj [(''data'', JStr ''v''), (''metadata'', JStr ''m'')])]"

definition world_commands :: world where
  "world_commands =
     world_example (\<lambda>n req. RaiseURLError)
       (\<lambda>s. if s = ''{command}'' then Some command_json else None)"

text \<open>
  Three platforms: one that answers every request with 404, one that answers with the hub
  as the client knows it but under another name, and one that knows no device and
  answers the creation with a page that is not JSON.
\<close>

definition world_404 :: world where
  "world_404 = world_example (\<lambda>n req. Response 404 ''not found'') (\<lambda>s. None)"

definition hub_json :: json where
  "hub_json =
     JObj [(''id'', JStr ''h1''), (''name'', JStr ''remote hub''),
           (''hash'', JStr (hashDevices [device_A, device_B])),
           (''device_local_ids'', JArr [JStr ''P-d1'', JStr ''P-d2''])]"

definition world_in_sync :: world where
  "world_in_sync =
     world_example (\<lambda>n req. Response 200 ''{hub}'')
       (\<lambda>s. if s = ''{hub}'' then Some hub_json else None)"

definition world_malformed :: world where
  "world_malformed =
     world_example
       (\<lambda>n req. if req_method req = GET then Response 404 ''not found''
                 else Response 200 ''<html>'')
       (\<lambda>s. None)"

text \<open>
  A device that already has a remote id, and a platform that knows the device under
  another one.
\<close>

definition device_r1 :: Device where
  "device_r1 = \<lparr>dev_id = ''d1'', dev_remote_id = JStr ''r1'', dev_name = ''A'', device_type_id = ''t''\<rparr>"

definition world_exists :: world where
  "world_exists =
     world_example (\<lambda>n req. Response 200 ''{device}'')
       (\<lambda>s. if s = ''{device}'' then Some (JObj [(''id'', JStr ''r2''), (''name'', JStr ''A'')])
            else None)"

section \<open>Properties of the device hash\<close>

lemma sort_map_perm:
  fixes f :: "'a \<Rightarrow> 'b::linorder"
  assumes "mset xs = mset ys"
  shows "sort (map f xs) = sort (map f ys)"
proof (rule properties_for_sort)
  show "mset (sort (map f ys)) = mset (map f xs)"
    using assms by (metis mset_map mset_sort)
  show "sorted (sort (map f ys))"
    by simp
qed

text \<open>
  C6: the device hash is the SHA-1 hex digest of the concatenation of the ascending
  per-device hex digests of local id and name, and so two lists of devices that are
  permutations of each other have the same hash.
\<close>

theorem hashDevices_permutation:
  "hashDevices devices =
     hexdigest (sha1 (encode (concat (sort
       (map (\<lambda>d. hexdigest (sha1 (encode (dev_id d @ dev_name d)))) devices)))))
   \<and> sorted (sort (map (\<lambda>d. hexdigest (sha1 (encode (dev_id d @ dev_name d)))) devices))
   \<and> (mset devices' = mset devices \<longrightarrow> hashDevices devices' = hashDevices devices)"
  using sort_map_perm [of devices' devices "\<lambda>d. hexdigest (sha1 (encode (dev_id d @ dev_name d)))"]
  by (simp add: hashDevices_def Let_def)

theorem hashDevices_permutation_witness:
  "mset [device_B, device_A] = mset [device_A, device_B]
   \<and> hashDevices [device_B, device_A] = hashDevices [device_A, device_B]"
  using hashDevices_permutation [of "[device_A, device_B]" "[device_B, device_A]"] by simp

section \<open>Properties of the device id prefix\<close>

lemma str_replace_match:
  "old \<noteq> [] \<Longrightarrow> str_replace old new (old @ s) = new @ str_replace old new s"
  by (subst str_replace.simps) simp

lemma str_replace_absent:
  "old \<noteq> [] \<Longrightarrow> \<not> sublist old s \<Longrightarrow> str_replace old new s = s"
proof (induction s)
  case Nil
  then show ?case by simp
next
  case (Cons c cs)
  have "take (length old) (c # cs) \<noteq> old"
  proof
    assume "take (length old) (c # cs) = old"
    then have "c # cs = old @ drop (length old) (c # cs)"
      by (metis append_take_drop_id)
    then have "sublist old (c # cs)"
      by (metis sublist_appendI append_Nil)
    with Cons.prems show False by simp
  qed
  moreover have "\<not> sublist old cs"
    using Cons.prems(2) by (auto simp add: sublist_Cons_right)
  ultimately show ?case
    using Cons by (subst str_replace.simps) simp
qed

text \<open>Where the local id does not contain the prefix followed by a dash, parsing undoes prefixing.\<close>

lemma parse_prefix_roundtrip_absent:
  "\<not> sublist (fmt (device_id_prefix cf) @ ''-'') d \<Longrightarrow> parseDeviceID cf (prefixDeviceID cf d) = d"
  using str_replace_match [of "fmt (device_id_prefix cf) @ ''-''" "[]" d]
    str_replace_absent [of "fmt (device_id_prefix cf) @ ''-''" d "[]"]
  by (simp add: parseDeviceID_def prefixDeviceID_def)

text \<open>
  C1 at the failing input: with the prefix \<open>P\<close>, the local id \<open>P-x\<close> is sent as
  \<open>P-P-x\<close> and parsed back as \<open>x\<close>, because \<open>replace\<close> removes every occurrence of
  \<open>P-\<close> and not only the leading one.
\<close>

theorem parseDeviceID_removes_every_occurrence:
  "prefixDeviceID conf_example ''P-x'' = ''P-P-x''
   \<and> parseDeviceID conf_example (prefixDeviceID conf_example ''P-x'') = ''x''"
  by (simp add: parseDeviceID_def prefixDeviceID_def fmt_def conf_example_def)

section \<open>Properties of the command queue\<close>

lemma put_nowait_unbounded:
  "maxsize q \<le> 0 \<Longrightarrow> put_nowait q x = Inr (q\<lparr>queue_items := queue_items q @ [x]\<rparr>)"
  by (simp add: put_nowait_def)

lemma handleCommand_enqueues:
  assumes "maxsize (cmd_queue c) \<le> 0" and "command_of W (conf c) (envelope, uri) = Some cmd"
  shows "handleCommand W c envelope uri =
           (Return, c\<lparr>cmd_queue := (cmd_queue c)\<lparr>queue_items := queue_items (cmd_queue c) @ [cmd]\<rparr>\<rparr>)"
  using assms
  by (auto simp add: handleCommand_def command_of_def put_nowait_unbounded Let_def
      split: option.splits sum.splits)

lemma handleCommands_unbounded:
  assumes "maxsize (cmd_queue c) \<le> 0" and "\<forall>d\<in>set ds. command_of W (conf c) d \<noteq> None"
  shows "handleCommands W c ds =
           (Return, c\<lparr>cmd_queue := (cmd_queue c)\<lparr>queue_items :=
              queue_items (cmd_queue c) @ map (\<lambda>d. the (command_of W (conf c) d)) ds\<rparr>\<rparr>)"
  using assms
proof (induction ds arbitrary: c)
  case Nil
  then show ?case by simp
next
  case (Cons d ds)
  obtain envelope uri where d: "d = (envelope, uri)" by (cases d)
  from Cons.prems obtain cmd where cmd: "command_of W (conf c) (envelope, uri) = Some cmd"
    by (auto simp add: d)
  let ?c = "c\<lparr>cmd_queue := (cmd_queue c)\<lparr>queue_items := queue_items (cmd_queue c) @ [cmd]\<rparr>\<rparr>"
  have step: "handleCommand W c envelope uri = (Return, ?c)"
    using Cons.prems(1) cmd by (rule handleCommand_enqueues)
  have "handleCommands W ?c ds =
          (Return, ?c\<lparr>cmd_queue := (cmd_queue ?c)\<lparr>queue_items :=
              queue_items (cmd_queue ?c) @ map (\<lambda>d. the (command_of W (conf ?c) d)) ds\<rparr>\<rparr>)"
    using Cons.prems by (intro Cons.IH) simp_all
  then show ?case
    by (simp add: d step cmd)
qed

lemma Client_init_fields:
  "Client_init W cf = Inr c \<Longrightarrow>
     cmd_queue c = Queue_init 0 \<and> workers c = [] \<and> hub_sync_event c \<and> \<not> hub_sync_lock c
     \<and> \<not> hub_init c \<and> sent c = []"
  by (auto simp add: Client_init_def split: sum.splits)

lemma command_example:
  "command_of world_commands conf_example (''{command}'', ''command/P-d1/srvX'') =
     Some \<lparr>env_device_id = ''d1'', env_service_uri = ''srvX'',
           env_message = \<lparr>msg_data = JStr ''v'', msg_metadata = JStr ''m''\<rparr>,
           env_correlation_id = JStr ''c'', env_completion_strategy = JStr ''optimistic'',
           env_timestamp = JNum 1700000000\<rparr>"
  by (simp add: command_of_def world_commands_def world_example_def command_json_def
      build_envelope_def py_index_def py_getitem_def py_setdefault_def parseDeviceID_def
      conf_example_def fmt_def)

text \<open>
  C3, as stated, fails: there is no capacity \<open>C\<close> such that the queue holds at most \<open>C\<close>
  commands after \<open>C + 1\<close> deliveries; the client's queue keeps all of them.
\<close>

theorem cmd_queue_has_no_capacity:
  "\<not> (\<exists>C::nat. length (queue_items (cmd_queue (snd
         (handleCommands world_commands (client_example True)
            (replicate (Suc C) (''{command}'', ''command/P-d1/srvX'')))))) \<le> C)"
proof -
  have "length (queue_items (cmd_queue (snd
         (handleCommands world_commands (client_example True)
            (replicate (Suc C) (''{command}'', ''command/P-d1/srvX'')))))) = Suc C" for C
    using handleCommands_unbounded [of "client_example True"
        "replicate (Suc C) (''{command}'', ''command/P-d1/srvX'')" world_commands]
    by (simp add: client_example_def Queue_init_def command_example)
  then show ?thesis by simp
qed

text \<open>
  C3, amended: the client creates its command queue without a capacity, so the queue has
  no bound; enqueueing does not block and never finds the queue full, and after any
  number of well-formed deliveries, none consumed, the queue holds the commands that were
  there before followed by all the delivered ones in their order: none is dropped.
\<close>

theorem cmd_queue_unbounded:
  "(Client_init W cf = Inr c \<longrightarrow> maxsize (cmd_queue c) = 0 \<and> queue_items (cmd_queue c) = [])
   \<and> (maxsize (cmd_queue c) = 0 \<longrightarrow> (\<forall>x. put_nowait (cmd_queue c) x \<noteq> Inl QueueFull))
   \<and> (maxsize (cmd_queue c) = 0 \<and> (\<forall>d\<in>set ds. command_of W (conf c) d \<noteq> None) \<longrightarrow>
        fst (handleCommands W c ds) = Return
        \<and> queue_items (cmd_queue (snd (handleCommands W c ds))) =
            queue_items (cmd_queue c) @ map (\<lambda>d. the (command_of W (conf c) d)) ds)"
  using handleCommands_unbounded [of c ds W] Client_init_fields [of W cf c]
  by (auto simp add: put_nowait_def Queue_init_def)

theorem cmd_queue_unbounded_witness:
  "Client_init world_commands conf_example = Inr (client_example False)
   \<and> maxsize (cmd_queue (client_example False)) = 0
   \<and> command_of world_commands (conf (client_example False))
         (''{command}'', ''command/P-d1/srvX'') \<noteq> None
   \<and> fst (handleCommands world_commands (client_example False)
        [(''{command}'', ''command/P-d1/srvX''), (''{command}'', ''command/P-d1/srvX'')]) = Return
   \<and> length (queue_items (cmd_queue (snd (handleCommands world_commands (client_example False)
        [(''{command}'', ''command/P-d1/srvX''), (''{command}'', ''command/P-d1/srvX'')])))) = 2"
proof -
  have i: "Client_init world_commands conf_example = Inr (client_example False)"
    by (simp add: Client_init_def genDeviceIdPrefix_def conf_example_def client_example_def)
  have m: "maxsize (cmd_queue (client_example False)) = 0"
    by (simp add: client_example_def Queue_init_def)
  have w: "command_of world_commands (conf (client_example False))
         (''{command}'', ''command/P-d1/srvX'') \<noteq> None"
    by (simp add: client_example_def command_example)
  show ?thesis
    using i m w
      cmd_queue_unbounded [of world_commands conf_example "client_example False"
        "[(''{command}'', ''command/P-d1/srvX''), (''{command}'', ''command/P-d1/srvX'')]"]
    by simp
qed

section \<open>Properties of hub initialisation and synchronisation\<close>

lemma initHub_probe_404:
  assumes "initHub W c = (r, c')" and "truthy (hub_id (conf c))"
    and "sent c' = sent c @ [q]" and "http_send W (length (sent c)) q = Response 404 b"
  shows "r = Raise HubNotFoundError \<and> hub_id (conf c') = JNull"
  using assms
  by (auto simp add: initHub_def send_def Let_def set_hub_id_def
      split: option.splits send_result.splits if_splits)

lemma syncHub_put_404:
  assumes "syncHub_put W c tok ids h = (r, c')"
  shows "\<exists>p. sent c' = sent c @ [p] \<and> hub_sync_lock c' = hub_sync_lock c
     \<and> (\<forall>b. http_send W (length (sent c)) p = Response 404 b \<longrightarrow>
            r = Raise HubNotFoundError \<and> hub_id (conf c') = JNull)"
  using assms
  by (auto simp add: syncHub_put_def send_def Let_def set_hub_id_def
      split: send_result.splits if_splits)

lemma syncHub_try_404:
  assumes "syncHub_try W c devices = (r, c')"
    and "length (sent c) \<le> i" and "i < length (sent c')"
    and "http_send W i (sent c' ! i) = Response 404 b"
  shows "r = Raise HubNotFoundError \<and> hub_id (conf c') = JNull"
proof (cases "getAccessToken W")
  case None
  with assms show ?thesis by (auto simp add: syncHub_try_def Let_def)
next
  case (Some tok)
  let ?c0 = "c\<lparr>hub_sync_event := False, workers := []\<rparr>"
  let ?g = "hub_get_request W (conf c) tok"
  let ?c1 = "?c0\<lparr>sent := sent c @ [?g]\<rparr>"
  show ?thesis
  proof (cases "http_send W (length (sent c)) ?g")
    case (Response status resp_body)
    show ?thesis
    proof (cases "status = 200")
      case False
      with assms Some Response show ?thesis
        by (auto simp add: syncHub_try_def send_def Let_def set_hub_id_def less_Suc_eq nth_append
            split: if_splits)
    next
      case True
      show ?thesis
      proof (cases "json_loads W resp_body")
        case None
        with assms Some Response True show ?thesis
          by (auto simp add: syncHub_try_def send_def Let_def less_Suc_eq nth_append)
      next
        case (Some hub) 
        note hub = this
        show ?thesis
        proof (cases "py_getitem hub ''name''")
          case (Inl e)
          with assms \<open>getAccessToken W = Some tok\<close> Response True hub show ?thesis
            by (auto simp add: syncHub_try_def send_def Let_def less_Suc_eq nth_append)
        next
          case (Inr remote_name)
          note rn = this
          let ?c2 = "if \<not> py_eq remote_name (hub_name (conf ?c1)) then set_hub_name remote_name ?c1 else ?c1"
          have s2: "sent ?c2 = sent c @ [?g]" by (simp add: set_hub_name_def)
          show ?thesis
          proof (cases "py_getitem hub ''hash''")
            case (Inl e)
            with assms \<open>getAccessToken W = Some tok\<close> Response True hub rn show ?thesis
              by (auto simp add: syncHub_try_def send_def Let_def less_Suc_eq nth_append set_hub_name_def
                  split: if_splits)
          next
            case (Inr remote_hash)
            show ?thesis
            proof (cases "py_eq remote_hash (JStr (hashDevices devices))")
              case True
              with assms \<open>getAccessToken W = Some tok\<close> Response \<open>status = 200\<close> hub rn Inr show ?thesis
                by (auto simp add: syncHub_try_def send_def Let_def less_Suc_eq nth_append set_hub_name_def
                  split: if_splits)
            next
              case False
              with assms(1) \<open>getAccessToken W = Some tok\<close> Response \<open>status = 200\<close> hub rn Inr
              have put: "syncHub_put W ?c2 tok (map (\<lambda>device. prefixDeviceID (conf c) (dev_id device)) devices) (hashDevices devices) = (r, c')"
                by (auto simp add: syncHub_try_def send_def Let_def split: if_splits)
              from syncHub_put_404 [OF put] s2 obtain p where
                p: "sent c' = sent c @ [?g, p]"
                and p404: "\<And>b. http_send W (Suc (length (sent c))) p = Response 404 b \<Longrightarrow>
                      r = Raise HubNotFoundError \<and> hub_id (conf c') = JNull"
                by auto
              from assms(2,3) p have "i = length (sent c) \<or> i = Suc (length (sent c))" by auto
              then show ?thesis
              proof
                assume "i = length (sent c)"
                with assms(4) p Response \<open>status = 200\<close> show ?thesis by (simp add: nth_append)
              next
                assume "i = Suc (length (sent c))"
                with assms(4) p p404 show ?thesis by (simp add: nth_append)
              qed
            qed
          qed
        qed
      qed
    qed
  next
    case RaiseSocketTimeout
    with assms Some show ?thesis
      by (auto simp add: syncHub_try_def send_def Let_def less_Suc_eq nth_append)
  next
    case RaiseURLError
    with assms Some show ?thesis
      by (auto simp add: syncHub_try_def send_def Let_def less_Suc_eq nth_append)
  qed
qed

lemma syncHub_404:
  assumes "syncHub W c devices = (r, c')"
    and "length (sent c) \<le> i" and "i < length (sent c')"
    and "http_send W i (sent c' ! i) = Response 404 b"
  shows "r = Raise HubNotFoundError \<and> hub_id (conf c') = JNull
         \<and> hub_sync_event c' \<and> \<not> hub_sync_lock c'"
proof -
  from assms(1,2,3) have run: "\<not> hub_sync_lock c" "hub_init c"
    by (auto simp add: syncHub_def Let_def split: if_splits)
  obtain r1 c1 where t: "syncHub_try W (c\<lparr>hub_sync_lock := True\<rparr>) devices = (r1, c1)"
    by (cases "syncHub_try W (c\<lparr>hub_sync_lock := True\<rparr>) devices")
  with assms(1) run have eq: "r = r1" "c' = c1\<lparr>hub_sync_event := True, hub_sync_lock := False\<rparr>"
    by (auto simp add: syncHub_def Let_def)
  from syncHub_try_404 [OF t, of i b] assms(2,3,4) eq show ?thesis by simp
qed

lemma initHub_recreates:
  assumes "hub_id (conf c) = JNull" and "getAccessToken W = Some tok"
  shows "\<exists>name. sent (snd (initHub W c)) = sent c @ [hub_post_request (conf c) tok name]"
  using assms
  by (auto simp add: initHub_def send_def Let_def set_hub_id_def set_hub_name_def
      split: send_result.splits option.splits sum.splits)

text \<open>
  C8: when the existence probe of \<open>initHub\<close>, or the \<open>GET\<close> or the \<open>PUT\<close> of
  \<open>syncHub\<close>, is answered with status 404, the method raises \<open>HubNotFoundError\<close> and the
  hub id in the configuration is \<open>None\<close> afterwards (\<open>syncHub\<close> also releases its lock and
  sets its event); with the id cleared, the next \<open>initHub\<close> issues the \<open>POST\<close> that
  creates a hub.
\<close>

theorem hub_not_found_clears_id:
  "(truthy (hub_id (conf c)) \<and> sent (snd (initHub W c)) = sent c @ [q]
      \<and> http_send W (length (sent c)) q = Response 404 b \<longrightarrow>
      fst (initHub W c) = Raise HubNotFoundError \<and> hub_id (conf (snd (initHub W c))) = JNull)
   \<and> (length (sent c) \<le> i \<and> i < length (sent (snd (syncHub W c devices)))
      \<and> http_send W i (sent (snd (syncHub W c devices)) ! i) = Response 404 b \<longrightarrow>
      fst (syncHub W c devices) = Raise HubNotFoundError
      \<and> hub_id (conf (snd (syncHub W c devices))) = JNull
      \<and> hub_sync_event (snd (syncHub W c devices)) \<and> \<not> hub_sync_lock (snd (syncHub W c devices)))
   \<and> (hub_id (conf c) = JNull \<and> getAccessToken W = Some tok \<longrightarrow>
      (\<exists>name. sent (snd (initHub W c)) = sent c @ [hub_post_request (conf c) tok name]))"
  using initHub_probe_404 [of W c "fst (initHub W c)" "snd (initHub W c)" q b]
    syncHub_404 [of W c devices "fst (syncHub W c devices)" "snd (syncHub W c devices)" i b]
    initHub_recreates [of c W tok]
  by simp

text \<open>
  C9: when the \<open>GET\<close> of \<open>syncHub\<close> is answered with status 200 and a hub whose hash is
  the hash of the supplied devices, \<open>syncHub\<close> returns having issued that request only, so
  no \<open>PUT\<close>; the hub name in the configuration is the remote name if the two differ.
\<close>

theorem syncHub_equal_hash_no_put:
  "hub_init c \<and> \<not> hub_sync_lock c \<and> getAccessToken W = Some tok
   \<and> http_send W (length (sent c)) (hub_get_request W (conf c) tok) = Response 200 resp_body
   \<and> json_loads W resp_body = Some hub
   \<and> py_getitem hub ''name'' = Inr remote_name
   \<and> py_getitem hub ''hash'' = Inr (JStr (hashDevices devices))
   \<longrightarrow> fst (syncHub W c devices) = Return
       \<and> sent (snd (syncHub W c devices)) = sent c @ [hub_get_request W (conf c) tok]
       \<and> req_method (hub_get_request W (conf c) tok) = GET
       \<and> hub_name (conf (snd (syncHub W c devices))) =
           (if py_eq remote_name (hub_name (conf c)) then hub_name (conf c) else remote_name)
       \<and> hub_sync_event (snd (syncHub W c devices))
       \<and> \<not> hub_sync_lock (snd (syncHub W c devices))"
  by (auto simp add: syncHub_def syncHub_try_def send_def Let_def set_hub_name_def
      hub_get_request_def)

text \<open>
  C10: on a client whose hub is not initialised, \<open>syncHub\<close> raises
  \<open>HubNotInitializedError\<close> and leaves the client as it was: no request is issued, the
  lock is free again and the event is as before, which after construction means set;
  a later \<open>addDevice\<close>, \<open>deleteDevice\<close> or \<open>syncHub\<close> does not wait.
\<close>

theorem syncHub_before_initHub:
  "(\<not> hub_init c \<and> \<not> hub_sync_lock c \<longrightarrow>
      syncHub W c devices = (Raise HubNotInitializedError, c)
      \<and> fst (addDevice W c device worker) \<noteq> Blocks
      \<and> fst (deleteDevice W c device_id worker) \<noteq> Blocks
      \<and> fst (syncHub W c devices') \<noteq> Blocks)
   \<and> (Client_init W cf = Inr c \<longrightarrow>
        \<not> hub_init c \<and> \<not> hub_sync_lock c \<and> hub_sync_event c \<and> sent c = [])"
  apply (intro conjI impI)
  subgoal by (simp add: syncHub_def Let_def)
  subgoal by (auto simp add: addDevice_def updateDevice_def send_def Let_def
        split: option.splits send_result.splits sum.splits)
  subgoal by (auto simp add: deleteDevice_def send_def Let_def
        split: option.splits send_result.splits)
  subgoal by (simp add: syncHub_def Let_def)
  by (auto simp add: Client_init_def split: sum.splits)

section \<open>Properties of device registration\<close>

lemma record_remote_id_malformed:
  "malformed W b \<Longrightarrow> record_remote_id W b device = Inr None"
  by (auto simp add: malformed_def record_remote_id_def py_getitem_def
      split: option.splits json.splits)

text \<open>
  C7: when \<open>addDevice\<close> does not have to wait, a token is available, and either the probe
  is answered with status 200, or the probe with 404 and the creating \<open>POST\<close> with 200,
  and the body of that 200 response does not decode or lacks the key \<open>id\<close>, then
  \<open>addDevice\<close> returns without raising and the device is what it was: its remote id has
  not been recorded.
\<close>

theorem addDevice_malformed_response:
  "(hub_init c \<longrightarrow> hub_sync_event c) \<and> getAccessToken W = Some tok \<and> malformed W b \<and>
   (http_send W (length (sent c)) (device_get_request W (conf c) tok device) = Response 200 b
    \<or> (\<exists>b0. http_send W (length (sent c)) (device_get_request W (conf c) tok device)
               = Response 404 b0
          \<and> http_send W (Suc (length (sent c))) (device_post_request (conf c) tok device)
               = Response 200 b))
   \<longrightarrow> fst (addDevice W c device worker) = Return
       \<and> snd (snd (addDevice W c device worker)) = device"
  by (auto simp add: addDevice_def send_def Let_def record_remote_id_malformed)


theorem hub_not_found_clears_id_witness:
  "truthy (hub_id (conf (client_example True)))
   \<and> http_send world_404 0 (hub_head_request world_404 conf_example ''token'')
       = Response 404 ''not found''
   \<and> fst (initHub world_404 (client_example True)) = Raise HubNotFoundError
   \<and> hub_id (conf (snd (initHub world_404 (client_example True)))) = JNull
   \<and> fst (syncHub world_404 (client_example True) [device_A]) = Raise HubNotFoundError
   \<and> hub_id (conf (snd (syncHub world_404 (client_example True) [device_A]))) = JNull
   \<and> (\<exists>name. sent (snd (initHub world_404 (snd (initHub world_404 (client_example True)))))
         = [hub_head_request world_404 conf_example ''token'',
            hub_post_request (conf (snd (initHub world_404 (client_example True)))) ''token'' name])"
proof -
  let ?c = "client_example True"
  let ?q = "hub_head_request world_404 conf_example ''token''"
  have t: "truthy (hub_id (conf ?c))"
    by (simp add: client_example_def conf_example_def)
  have a: "http_send world_404 0 q = Response 404 ''not found''" for q
    by (simp add: world_404_def world_example_def)
  have tok: "getAccessToken world_404 = Some ''token''"
    by (simp add: world_404_def world_example_def)
  have i: "sent (snd (initHub world_404 ?c)) = sent ?c @ [?q]"
    by (simp add: initHub_def send_def Let_def tok client_example_def conf_example_def
        world_404_def world_example_def set_hub_id_def)
  have s0: "sent ?c = []"
    by (simp add: client_example_def)
  have s: "sent (snd (syncHub world_404 ?c [device_A])) = [hub_get_request world_404 conf_example ''token'']"
    by (simp add: syncHub_def syncHub_try_def send_def Let_def tok client_example_def
        world_404_def world_example_def set_hub_id_def)
  show ?thesis
    using t a i s s0 tok
      hub_not_found_clears_id [of ?c world_404 ?q "''not found''" 0 "[device_A]" "''token''"]
      hub_not_found_clears_id [of "snd (initHub world_404 ?c)" world_404 ?q "''not found''" 0
        "[device_A]" "''token''"]
    by auto
qed

theorem syncHub_equal_hash_no_put_witness:
  "hub_init (client_example True) \<and> \<not> hub_sync_lock (client_example True)
   \<and> getAccessToken world_in_sync = Some ''token''
   \<and> http_send world_in_sync 0 (hub_get_request world_in_sync conf_example ''token'')
        = Response 200 ''{hub}''
   \<and> json_loads world_in_sync ''{hub}'' = Some hub_json
   \<and> py_getitem hub_json ''name'' = Inr (JStr ''remote hub'')
   \<and> py_getitem hub_json ''hash'' = Inr (JStr (hashDevices [device_A, device_B]))
   \<and> fst (syncHub world_in_sync (client_example True) [device_A, device_B]) = Return
   \<and> sent (snd (syncHub world_in_sync (client_example True) [device_A, device_B]))
        = [hub_get_request world_in_sync conf_example ''token'']
   \<and> hub_name (conf (snd (syncHub world_in_sync (client_example True) [device_A, device_B])))
        = JStr ''remote hub''"
proof -
  let ?c = "client_example True"
  have c: "hub_init ?c" "\<not> hub_sync_lock ?c" "sent ?c = []" "conf ?c = conf_example"
    "hub_name conf_example = JStr ''hub''"
    by (simp_all add: client_example_def conf_example_def)
  have w: "getAccessToken world_in_sync = Some ''token''"
    "http_send world_in_sync 0 (hub_get_request world_in_sync conf_example ''token'')
       = Response 200 ''{hub}''"
    "json_loads world_in_sync ''{hub}'' = Some hub_json"
    by (simp_all add: world_in_sync_def world_example_def)
  have h: "py_getitem hub_json ''name'' = Inr (JStr ''remote hub'')"
    "py_getitem hub_json ''hash'' = Inr (JStr (hashDevices [device_A, device_B]))"
    by (simp_all add: py_getitem_def hub_json_def)
  show ?thesis
    using c w h
      syncHub_equal_hash_no_put [of ?c world_in_sync "''token''" "''{hub}''" hub_json
        "JStr ''remote hub''" "[device_A, device_B]"]
    by simp
qed

theorem syncHub_before_initHub_witness:
  "\<not> hub_init (client_example False) \<and> \<not> hub_sync_lock (client_example False)
   \<and> Client_init world_404 conf_example = Inr (client_example False)
   \<and> syncHub world_404 (client_example False) [device_A]
       = (Raise HubNotInitializedError, client_example False)
   \<and> hub_sync_event (client_example False) \<and> sent (client_example False) = []
   \<and> fst (addDevice world_404 (client_example False) device_A True) \<noteq> Blocks"
proof -
  have i: "Client_init world_404 conf_example = Inr (client_example False)"
    by (simp add: Client_init_def genDeviceIdPrefix_def conf_example_def client_example_def)
  have c: "\<not> hub_init (client_example False)" "\<not> hub_sync_lock (client_example False)"
    by (simp_all add: client_example_def)
  show ?thesis
    using i c
      syncHub_before_initHub [of "client_example False" world_404 "[device_A]" device_A True
        "''d1''" "[]" conf_example]
    by simp
qed

theorem addDevice_malformed_response_witness:
  "hub_sync_event (client_example True)
   \<and> getAccessToken world_malformed = Some ''token''
   \<and> malformed world_malformed ''<html>''
   \<and> http_send world_malformed 0 (device_get_request world_malformed conf_example ''token'' device_A)
        = Response 404 ''not found''
   \<and> http_send world_malformed 1 (device_post_request conf_example ''token'' device_A)
        = Response 200 ''<html>''
   \<and> fst (addDevice world_malformed (client_example True) device_A False) = Return
   \<and> snd (snd (addDevice world_malformed (client_example True) device_A False)) = device_A"
proof -
  let ?c = "client_example True"
  have c: "hub_sync_event ?c" "sent ?c = []" "conf ?c = conf_example"
    by (simp_all add: client_example_def)
  have w: "getAccessToken world_malformed = Some ''token''"
    "malformed world_malformed ''<html>''"
    "http_send world_malformed 0 (device_get_request world_malformed conf_example ''token'' device_A)
        = Response 404 ''not found''"
    "http_send world_malformed 1 (device_post_request conf_example ''token'' device_A)
        = Response 200 ''<html>''"
    by (simp_all add: world_malformed_def world_example_def malformed_def
        device_get_request_def device_post_request_def)
  show ?thesis
    using c w
      addDevice_malformed_response [of ?c world_malformed "''token''" "''<html>''" device_A False]
    by auto
qed

section \<open>Properties of the generated prefix\<close>

lemma decode_encode: "decode (encode s) = s"
proof -
  have "char_of (unat (word_of_nat (of_char c) :: byte)) = c" for c :: char
  proof -
    have "(of_char c :: nat) < 256" by simp
    then have "unat (word_of_nat (of_char c) :: byte) = of_char c"
      by (simp add: unat_of_nat)
    then show ?thesis by simp
  qed
  then show ?thesis
    by (simp add: decode_def encode_def map_idI)
qed

lemma length_md5: "length (md5 msg) = 16"
  by (simp add: md5_def le_bytes32_def be_bytes32_def split: prod.splits)

lemma length_sha1: "length (sha1 msg) = 20"
  by (simp add: sha1_def be_bytes32_def split: prod.splits)

lemma b64_char_not_pad: "b64_char i \<noteq> CHR ''=''" "CHR ''='' \<noteq> b64_char i"
proof -
  have "\<forall>c\<in>set b64url_alphabet. c \<noteq> CHR ''=''"
    by (simp add: b64url_alphabet_def)
  moreover have "b64_char i \<in> set b64url_alphabet"
    unfolding b64_char_def by (rule nth_mem) (simp add: b64url_alphabet_def)
  ultimately show "b64_char i \<noteq> CHR ''=''" by blast
  then show "CHR ''='' \<noteq> b64_char i" by (rule not_sym)
qed

lemma b64url_text_shape:
  "\<exists>xs k. b64url_text bs = xs @ replicate k CHR ''='' \<and> CHR ''='' \<notin> set xs
           \<and> length xs = (4 * length bs + 2) div 3"
proof (induction bs rule: b64url_text.induct)
  case 1
  show ?case by simp
next
  case (2 a)
  have "b64url_text [a] =
          [b64_char (unat a * 65536 div 262144), b64_char (unat a * 65536 div 4096)]
            @ replicate 2 CHR ''=''"
    by (simp add: Let_def numeral_2_eq_2)
  moreover have "CHR ''='' \<notin> set [b64_char (unat a * 65536 div 262144), b64_char (unat a * 65536 div 4096)]"
    by (simp add: b64_char_not_pad)
  ultimately show ?case
    by (intro exI [of _ "[b64_char (unat a * 65536 div 262144), b64_char (unat a * 65536 div 4096)]"]
        exI [of _ 2]) simp
next
  case (3 a b)
  let ?n = "unat a * 65536 + unat b * 256"
  have "b64url_text [a, b] =
          [b64_char (?n div 262144), b64_char (?n div 4096), b64_char (?n div 64)]
            @ replicate 1 CHR ''=''"
    by (simp add: Let_def)
  moreover have "CHR ''='' \<notin> set [b64_char (?n div 262144), b64_char (?n div 4096), b64_char (?n div 64)]"
    by (simp add: b64_char_not_pad)
  ultimately show ?case
    by (intro exI [of _ "[b64_char (?n div 262144), b64_char (?n div 4096), b64_char (?n div 64)]"]
        exI [of _ 1]) simp
next
  case (4 a b c rest)
  then obtain xs k where xs: "b64url_text rest = xs @ replicate k CHR ''=''"
    "CHR ''='' \<notin> set xs" "length xs = (4 * length rest + 2) div 3"
    by blast
  let ?n = "unat a * 65536 + unat b * 256 + unat c"
  let ?ys = "[b64_char (?n div 262144), b64_char (?n div 4096), b64_char (?n div 64), b64_char ?n]"
  have "b64url_text (a # b # c # rest) = (?ys @ xs) @ replicate k CHR ''=''"
    by (simp add: Let_def xs)
  moreover have "CHR ''='' \<notin> set (?ys @ xs)"
    using xs(2) by (simp add: b64_char_not_pad)
  moreover have "length (?ys @ xs) = (4 * length (a # b # c # rest) + 2) div 3"
    using xs(3) by simp
  ultimately show ?case
    by blast
qed

lemma rstrip_padding: "c \<notin> set xs \<Longrightarrow> rstrip c (xs @ replicate k c) = xs"
proof -
  assume a: "c \<notin> set xs"
  have "dropWhile (\<lambda>x. x = c) (replicate k c @ rev xs) = rev xs"
    using a by (cases "rev xs") (auto simp add: dropWhile_append)
  then show ?thesis by (simp add: rstrip_def)
qed

lemma stripped_b64:
  "length (rstrip CHR ''='' (decode (urlsafe_b64encode bs))) = (4 * length bs + 2) div 3
   \<and> CHR ''='' \<notin> set (rstrip CHR ''='' (decode (urlsafe_b64encode bs)))"
proof -
  obtain xs k where xs: "b64url_text bs = xs @ replicate k CHR ''=''"
    "CHR ''='' \<notin> set xs" "length xs = (4 * length bs + 2) div 3"
    using b64url_text_shape by blast
  then show ?thesis
    by (simp add: urlsafe_b64encode_def decode_encode rstrip_padding)
qed

lemma length_device_id_prefix_md5: "length (device_id_prefix_md5 user t) = 22"
  using stripped_b64 [of "md5 (encode (hexdigest (md5 (encode user)) @ t))"]
  by (simp add: device_id_prefix_md5_def length_md5)

lemma length_device_id_prefix_spec: "length (device_id_prefix_spec user t) = 27"
  using stripped_b64 [of "sha1 (encode (hexdigest (md5 (encode user)) @ t))"]
  by (simp add: device_id_prefix_spec_def length_sha1)

lemma genDeviceIdPrefix_unset:
  assumes "device_id_prefix cf = None \<or> device_id_prefix cf = Some []"
    and "credentials_user cf = Some user"
  shows "genDeviceIdPrefix W cf =
           Inr (cf\<lparr>device_id_prefix := Some (device_id_prefix_md5 user (time_time W))\<rparr>)"
  using assms by (auto simp add: genDeviceIdPrefix_def device_id_prefix_md5_def Let_def)

text \<open>
  C2, as stated, fails: for the user \<open>alice\<close> at the time \<open>1700000000.5\<close> the generated
  prefix is not the one the claim describes. The outer digest of the code is MD5, whose
  16 bytes give 22 characters, where SHA-1 has 20 bytes and gives 27.
\<close>

theorem genDeviceIdPrefix_is_not_sha1:
  "genDeviceIdPrefix world_404 (conf_example\<lparr>device_id_prefix := None\<rparr>)
     \<noteq> Inr (conf_example\<lparr>device_id_prefix :=
              Some (device_id_prefix_spec ''alice'' ''1700000000.5'')\<rparr>)"
proof
  assume "genDeviceIdPrefix world_404 (conf_example\<lparr>device_id_prefix := None\<rparr>)
     = Inr (conf_example\<lparr>device_id_prefix :=
              Some (device_id_prefix_spec ''alice'' ''1700000000.5'')\<rparr>)"
  moreover have "genDeviceIdPrefix world_404 (conf_example\<lparr>device_id_prefix := None\<rparr>)
     = Inr (conf_example\<lparr>device_id_prefix :=
              Some (device_id_prefix_md5 ''alice'' ''1700000000.5'')\<rparr>)"
    using genDeviceIdPrefix_unset [of "conf_example\<lparr>device_id_prefix := None\<rparr>" "''alice''" world_404]
    by (simp add: conf_example_def world_404_def world_example_def)
  ultimately have "device_id_prefix (conf_example\<lparr>device_id_prefix :=
              Some (device_id_prefix_md5 ''alice'' ''1700000000.5'')\<rparr>)
     = device_id_prefix (conf_example\<lparr>device_id_prefix :=
              Some (device_id_prefix_spec ''alice'' ''1700000000.5'')\<rparr>)"
    by simp
  then have "device_id_prefix_md5 ''alice'' ''1700000000.5''
      = device_id_prefix_spec ''alice'' ''1700000000.5''"
    by simp
  then have "length (device_id_prefix_md5 ''alice'' ''1700000000.5'')
      = length (device_id_prefix_spec ''alice'' ''1700000000.5'')"
    by simp
  then show False
    by (simp add: length_device_id_prefix_md5 length_device_id_prefix_spec)
qed

text \<open>
  C2, amended: when no prefix is configured (the option is unset or empty) and the user
  name is a string, the generated prefix is base64url(md5(md5(user) || unixTimeFloat))
  with the padding stripped, where md5(user) is the hex digest of the user name and
  unixTimeFloat the current time as a decimal string; it has 22 characters, none of them
  the padding character. A configured prefix is kept.
\<close>

theorem genDeviceIdPrefix_md5:
  "((device_id_prefix cf = None \<or> device_id_prefix cf = Some []) \<and> credentials_user cf = Some user
      \<longrightarrow> genDeviceIdPrefix W cf =
            Inr (cf\<lparr>device_id_prefix := Some (device_id_prefix_md5 user (time_time W))\<rparr>)
          \<and> length (device_id_prefix_md5 user (time_time W)) = 22
          \<and> CHR ''='' \<notin> set (device_id_prefix_md5 user (time_time W)))
   \<and> (device_id_prefix cf = Some p \<and> p \<noteq> [] \<longrightarrow> genDeviceIdPrefix W cf = Inr cf)"
  using genDeviceIdPrefix_unset [of cf user W] length_device_id_prefix_md5 [of user "time_time W"]
    stripped_b64 [of "md5 (encode (hexdigest (md5 (encode user)) @ time_time W))"]
  by (auto simp add: device_id_prefix_md5_def genDeviceIdPrefix_def)

theorem genDeviceIdPrefix_md5_witness:
  "device_id_prefix (conf_example\<lparr>device_id_prefix := None\<rparr>) = None
   \<and> credentials_user (conf_example\<lparr>device_id_prefix := None\<rparr>) = Some ''alice''
   \<and> genDeviceIdPrefix world_404 (conf_example\<lparr>device_id_prefix := None\<rparr>) =
        Inr (conf_example\<lparr>device_id_prefix := Some (device_id_prefix_md5 ''alice'' ''1700000000.5'')\<rparr>)
   \<and> length (device_id_prefix_md5 ''alice'' ''1700000000.5'') = 22
   \<and> device_id_prefix conf_example = Some ''P''
   \<and> genDeviceIdPrefix world_404 conf_example = Inr conf_example"
proof -
  have c: "device_id_prefix (conf_example\<lparr>device_id_prefix := None\<rparr>) = None"
    "credentials_user (conf_example\<lparr>device_id_prefix := None\<rparr>) = Some ''alice''"
    "device_id_prefix conf_example = Some ''P''"
    "time_time world_404 = ''1700000000.5''"
    by (simp_all add: conf_example_def world_404_def world_example_def)
  show ?thesis
    using c
      genDeviceIdPrefix_md5 [of "conf_example\<lparr>device_id_prefix := None\<rparr>" "''alice''" world_404 "''P''"]
      genDeviceIdPrefix_md5 [of conf_example "''alice''" world_404 "''P''"]
    by simp
qed

section \<open>Properties of the remote id\<close>

lemma remote_id_setter_once:
  "truthy (remote_id d) \<Longrightarrow>
     remote_id_setter d arg = Inl (case arg of JStr s \<Rightarrow> AttributeError | _ \<Rightarrow> TypeError)"
  by (simp add: remote_id_setter_def remote_id_def split: json.splits)

lemma remote_id_setter_Inr:
  "remote_id_setter d arg = Inr d' \<Longrightarrow>
     \<not> truthy (remote_id d) \<and> (\<exists>s. arg = JStr s) \<and> d' = d\<lparr>dev_remote_id := arg\<rparr>"
  by (auto simp add: remote_id_setter_def remote_id_def split: json.splits if_splits)

lemma record_remote_id_Some:
  "json_loads W b = Some atr \<Longrightarrow> py_getitem atr ''id'' = Inr v \<Longrightarrow>
     record_remote_id W b d = Inr (Some (d\<lparr>dev_remote_id := v\<rparr>))"
  by (simp add: record_remote_id_def setattr_remote_id_def)

lemma addDevice_exists:
  assumes "hub_init c \<longrightarrow> hub_sync_event c" and "getAccessToken W = Some tok"
    and "json_loads W b = Some atr" and "py_getitem atr ''id'' = Inr v"
    and "http_send W (length (sent c)) (device_get_request W (conf c) tok d) = Response 200 b"
  shows "snd (snd (addDevice W c d worker)) = d\<lparr>dev_remote_id := v\<rparr>"
proof -
  from assms(1) have nb: "(hub_init c \<and> \<not> hub_sync_event c) = False" by blast
  let ?c0 = "if worker then c\<lparr>workers := workers c @ [current_thread W]\<rparr> else c"
  have c0: "sent ?c0 = sent c" "conf ?c0 = conf c" by simp_all
  obtain r c2 where u: "updateDevice W (?c0\<lparr>sent := sent ?c0 @ [device_get_request W (conf c) tok d]\<rparr>)
      (d\<lparr>dev_remote_id := v\<rparr>) = (r, c2)"
    by (cases "updateDevice W (?c0\<lparr>sent := sent ?c0 @ [device_get_request W (conf c) tok d]\<rparr>)
      (d\<lparr>dev_remote_id := v\<rparr>)")
  show ?thesis
    unfolding addDevice_def
    using assms(2,5) u
    by (simp add: nb send_def Let_def c0 record_remote_id_Some [OF assms(3,4)])
qed

lemma addDevice_created:
  assumes "hub_init c \<longrightarrow> hub_sync_event c" and "getAccessToken W = Some tok"
    and "json_loads W b = Some atr" and "py_getitem atr ''id'' = Inr v"
    and "http_send W (length (sent c)) (device_get_request W (conf c) tok d) = Response 404 b0"
    and "http_send W (Suc (length (sent c))) (device_post_request (conf c) tok d) = Response 200 b"
  shows "snd (snd (addDevice W c d worker)) = d\<lparr>dev_remote_id := v\<rparr>"
proof -
  from assms(1) have nb: "(hub_init c \<and> \<not> hub_sync_event c) = False" by blast
  let ?c0 = "if worker then c\<lparr>workers := workers c @ [current_thread W]\<rparr> else c"
  have c0: "sent ?c0 = sent c" "conf ?c0 = conf c" by simp_all
  show ?thesis
    unfolding addDevice_def
    using assms(2,5,6)
    by (simp add: nb send_def Let_def c0 record_remote_id_Some [OF assms(3,4)])
qed

lemma world_exists_facts:
  "getAccessToken world_exists = Some ''token''"
  "json_loads world_exists ''{device}'' = Some (JObj [(''id'', JStr ''r2''), (''name'', JStr ''A'')])"
  "http_send world_exists n req = Response 200 ''{device}''"
  by (simp_all add: world_exists_def world_example_def)

text \<open>
  C4, as stated, fails: a device whose remote id is \<open>r1\<close> is added to a platform that
  knows it as \<open>r2\<close>; afterwards the remote id of the device is \<open>r2\<close>.
\<close>

theorem addDevice_replaces_remote_id:
  "remote_id device_r1 = JStr ''r1'' \<and> truthy (remote_id device_r1)
   \<and> remote_id (snd (snd (addDevice world_exists (client_example True) device_r1 False)))
       = JStr ''r2''"
proof -
  have "py_getitem (JObj [(''id'', JStr ''r2''), (''name'', JStr ''A'')]) ''id'' = Inr (JStr ''r2'')"
    by (simp add: py_getitem_def)
  moreover have "hub_sync_event (client_example True)"
    by (simp add: client_example_def)
  ultimately have "snd (snd (addDevice world_exists (client_example True) device_r1 False))
      = device_r1\<lparr>dev_remote_id := JStr ''r2''\<rparr>"
    by (intro addDevice_exists [where b = "''{device}''" and tok = "''token''"])
       (simp_all add: world_exists_facts)
  then show ?thesis
    by (simp add: remote_id_def device_r1_def)
qed

text \<open>
  C4, amended: the setter of \<open>remote_id\<close> sets it at most once: when \<open>remote_id\<close> holds a
  non-empty value, an assignment through the setter raises (\<open>AttributeError\<close> for a
  string, \<open>TypeError\<close> for anything else), and the setter succeeds only on a descriptor
  whose \<open>remote_id\<close> is empty. The \<open>addDevice\<close> flow does not use the setter: when the
  platform's answer carries an id, the device has that id afterwards, whatever it had
  before.
\<close>

theorem remote_id_set_once_by_setter:
  "(truthy (remote_id d) \<longrightarrow>
      remote_id_setter d arg = Inl (case arg of JStr s \<Rightarrow> AttributeError | _ \<Rightarrow> TypeError))
   \<and> (remote_id_setter d arg = Inr d' \<longrightarrow>
      \<not> truthy (remote_id d) \<and> (\<exists>s. arg = JStr s) \<and> remote_id d' = arg)
   \<and> ((hub_init c \<longrightarrow> hub_sync_event c) \<and> getAccessToken W = Some tok
      \<and> json_loads W b = Some atr \<and> py_getitem atr ''id'' = Inr v
      \<and> (http_send W (length (sent c)) (device_get_request W (conf c) tok d) = Response 200 b
          \<or> (\<exists>b0. http_send W (length (sent c)) (device_get_request W (conf c) tok d)
                     = Response 404 b0
                \<and> http_send W (Suc (length (sent c))) (device_post_request (conf c) tok d)
                     = Response 200 b))
      \<longrightarrow> remote_id (snd (snd (addDevice W c d worker))) = v)"
proof (intro conjI impI)
  assume "truthy (remote_id d)"
  then show "remote_id_setter d arg = Inl (case arg of JStr s \<Rightarrow> AttributeError | _ \<Rightarrow> TypeError)"
    by (rule remote_id_setter_once)
next
  assume "remote_id_setter d arg = Inr d'"
  from remote_id_setter_Inr [OF this]
  show "\<not> truthy (remote_id d)" and "\<exists>s. arg = JStr s" and "remote_id d' = arg"
    by (simp_all add: remote_id_def)
next
  assume a: "(hub_init c \<longrightarrow> hub_sync_event c) \<and> getAccessToken W = Some tok
      \<and> json_loads W b = Some atr \<and> py_getitem atr ''id'' = Inr v
      \<and> (http_send W (length (sent c)) (device_get_request W (conf c) tok d) = Response 200 b
          \<or> (\<exists>b0. http_send W (length (sent c)) (device_get_request W (conf c) tok d)
                     = Response 404 b0
                \<and> http_send W (Suc (length (sent c))) (device_post_request (conf c) tok d)
                     = Response 200 b))"
  then have h: "hub_init c \<longrightarrow> hub_sync_event c" "getAccessToken W = Some tok"
    "json_loads W b = Some atr" "py_getitem atr ''id'' = Inr v"
    by simp_all
  from a consider
    "http_send W (length (sent c)) (device_get_request W (conf c) tok d) = Response 200 b"
    | b0 where "http_send W (length (sent c)) (device_get_request W (conf c) tok d) = Response 404 b0"
      "http_send W (Suc (length (sent c))) (device_post_request (conf c) tok d) = Response 200 b"
    by blast
  then have "snd (snd (addDevice W c d worker)) = d\<lparr>dev_remote_id := v\<rparr>"
  proof cases
    case 1
    with h show ?thesis by (rule addDevice_exists)
  next
    case 2
    with h show ?thesis by (rule addDevice_created)
  qed
  then show "remote_id (snd (snd (addDevice W c d worker))) = v"
    by (simp add: remote_id_def)
qed

theorem remote_id_set_once_by_setter_witness:
  "truthy (remote_id device_r1)
   \<and> remote_id_setter device_r1 (JStr ''r3'') = Inl AttributeError
   \<and> remote_id_setter device_A (JStr ''r3'') = Inr (device_A\<lparr>dev_remote_id := JStr ''r3''\<rparr>)
   \<and> hub_sync_event (client_example True)
   \<and> getAccessToken world_exists = Some ''token''
   \<and> json_loads world_exists ''{device}'' = Some (JObj [(''id'', JStr ''r2''), (''name'', JStr ''A'')])
   \<and> py_getitem (JObj [(''id'', JStr ''r2''), (''name'', JStr ''A'')]) ''id'' = Inr (JStr ''r2'')
   \<and> http_send world_exists 0 (device_get_request world_exists conf_example ''token'' device_r1)
        = Response 200 ''{device}''
   \<and> remote_id (snd (snd (addDevice world_exists (client_example True) device_r1 False)))
        = JStr ''r2''"
proof -
  let ?c = "client_example True"
  let ?atr = "JObj [(''id'', JStr ''r2''), (''name'', JStr ''A'')]"
  have t: "truthy (remote_id device_r1)"
    by (simp add: remote_id_def device_r1_def)
  have s: "remote_id_setter device_A (JStr ''r3'') = Inr (device_A\<lparr>dev_remote_id := JStr ''r3''\<rparr>)"
    by (simp add: remote_id_setter_def device_A_def)
  have c: "hub_sync_event ?c" "sent ?c = []" "conf ?c = conf_example"
    by (simp_all add: client_example_def)
  have p: "py_getitem ?atr ''id'' = Inr (JStr ''r2'')"
    by (simp add: py_getitem_def)
  note th = remote_id_set_once_by_setter [of device_r1 "JStr ''r3''" device_r1 ?c world_exists
        "''token''" "''{device}''" ?atr "JStr ''r2''" False]
  from th t have 1: "remote_id_setter device_r1 (JStr ''r3'') = Inl AttributeError"
    by simp
  have g: "http_send world_exists (length (sent ?c)) (device_get_request world_exists (conf ?c) ''token'' device_r1)
        = Response 200 ''{device}''"
    by (rule world_exists_facts)
  from th have "(hub_init ?c \<longrightarrow> hub_sync_event ?c) \<and> getAccessToken world_exists = Some ''token''
      \<and> json_loads world_exists ''{device}'' = Some ?atr \<and> py_getitem ?atr ''id'' = Inr (JStr ''r2'')
      \<and> (http_send world_exists (length (sent ?c)) (device_get_request world_exists (conf ?c) ''token'' device_r1)
            = Response 200 ''{device}''
          \<or> (\<exists>b0. http_send world_exists (length (sent ?c)) (device_get_request world_exists (conf ?c) ''token'' device_r1)
                     = Response 404 b0
                \<and> http_send world_exists (Suc (length (sent ?c))) (device_post_request (conf ?c) ''token'' device_r1)
                     = Response 200 ''{device}''))
      \<longrightarrow> remote_id (snd (snd (addDevice world_exists ?c device_r1 False))) = JStr ''r2''"
    by (rule conjunct2 [THEN conjunct2])
  with c(1) p g world_exists_facts(1,2)
  have 2: "remote_id (snd (snd (addDevice world_exists ?c device_r1 False))) = JStr ''r2''"
    by blast
  have 3: "http_send world_exists 0 (device_get_request world_exists conf_example ''token'' device_r1)
        = Response 200 ''{device}''"
    by (rule world_exists_facts)
  from t 1 s c(1) world_exists_facts(1,2) p 3 2 show ?thesis
    by (intro conjI)
qed

end
